theory Spec2Isabelle
  imports Complex_Main
begin

section \<open>Numbers and geometry types\<close>

text \<open>
  The render package computes with JavaScript numbers. The numbers that are
  handed in are modelled as \<^typ>\<open>real\<close>: rounding error of IEEE doubles is
  outside the model. A result that JavaScript would make \<open>Infinity\<close> or
  \<open>NaN\<close> (a division by zero, the bounding box of no points) is never HOL's
  \<open>x / 0 = 0\<close>: it is an explicit \<open>None\<close>, or, where the code goes on
  computing with it, a \<open>JsNumber\<close> that tells the infinities and \<open>NaN\<close>
  apart. Zero has no sign in the model.

  \<open>Point\<close>, \<open>Size\<close>, \<open>Bbox\<close>, \<open>Transform\<close> are the tuples of
  \<open>@allmaps/types\<close>; a \<open>Ring\<close> and a \<open>Rectangle\<close> are arrays of points
  (a rectangle has four), a \<open>Polygon\<close> an array of rings.
\<close>

datatype JsNumber = Finite real | PosInfinity | NegInfinity | NaN

text \<open>\<open>a / b\<close> and \<open>1 / n\<close> as JavaScript computes them; the reciprocal is
  \<open>None\<close> when it is not finite.\<close>

definition jsDivide :: "real \<Rightarrow> real \<Rightarrow> JsNumber" where
  "jsDivide a b =
     (if b = 0 then (if a = 0 then NaN else if 0 < a then PosInfinity else NegInfinity)
      else Finite (a / b))"

definition jsReciprocal :: "JsNumber \<Rightarrow> real option" where
  "jsReciprocal n =
     (case n of
        Finite r \<Rightarrow> if r = 0 then None else Some (1 / r)
      | PosInfinity \<Rightarrow> Some 0
      | NegInfinity \<Rightarrow> Some 0
      | NaN \<Rightarrow> None)"

text \<open>\<open>Math.max\<close> and \<open>Math.min\<close> of two numbers: \<open>NaN\<close> if either is.\<close>

definition jsMax :: "JsNumber \<Rightarrow> JsNumber \<Rightarrow> JsNumber" where
  "jsMax a b =
     (if a = NaN \<or> b = NaN then NaN
      else if a = PosInfinity \<or> b = PosInfinity then PosInfinity
      else (case (a, b) of
              (Finite x, Finite y) \<Rightarrow> Finite (max x y)
            | (NegInfinity, _) \<Rightarrow> b
            | (_, _) \<Rightarrow> a))"

definition jsMin :: "JsNumber \<Rightarrow> JsNumber \<Rightarrow> JsNumber" where
  "jsMin a b =
     (if a = NaN \<or> b = NaN then NaN
      else if a = NegInfinity \<or> b = NegInfinity then NegInfinity
      else (case (a, b) of
              (Finite x, Finite y) \<Rightarrow> Finite (min x y)
            | (PosInfinity, _) \<Rightarrow> b
            | (_, _) \<Rightarrow> a))"

type_synonym Point = "real \<times> real"
type_synonym Size = "real \<times> real"
type_synonym Bbox = "real \<times> real \<times> real \<times> real"
type_synonym Ring = "Point list"
type_synonym Rectangle = "Point list"
type_synonym Polygon = "Ring list"
type_synonym Transform = "real \<times> real \<times> real \<times> real \<times> real \<times> real"

datatype Fit = Contain | Cover

datatype TranslateOp = Add | Substract

subsection \<open>Helpers of \<open>@allmaps/stdlib\<close>\<close>

text \<open>
  Viewport.ts imports its geometry helpers from \<open>@allmaps/stdlib\<close>, whose
  source is not part of the sources verified here. Each is modelled from the
  specification (component A, geometry primitives: points, rings, bboxes,
  rotation) and from the way Viewport.ts calls it.
\<close>

text \<open>Modelled from the spec: \<open>scaleSize\<close> of @allmaps/stdlib (missing);
  "canvasSize = viewportSize \<open>\<cdot>\<close> dpr".\<close>

definition scaleSize :: "Size \<Rightarrow> real \<Rightarrow> Size" where
  "scaleSize size0 s = (fst size0 * s, snd size0 * s)"

text \<open>Modelled from the spec: \<open>scalePoint\<close> of @allmaps/stdlib (missing); a
  point times a scalar.\<close>

definition scalePoint :: "Point \<Rightarrow> real \<Rightarrow> Point" where
  "scalePoint p s = (fst p * s, snd p * s)"

text \<open>Modelled from the spec: \<open>scalePoints\<close> of @allmaps/stdlib (missing);
  \<open>scalePoint\<close> on every point.\<close>

definition scalePoints :: "Point list \<Rightarrow> real \<Rightarrow> Point list" where
  "scalePoints ps s = map (\<lambda>p. scalePoint p s) ps"

text \<open>Modelled from the spec: \<open>sizeToResolution\<close> of @allmaps/stdlib (missing);
  the class comment of Viewport says "resolution ..., as width * height".\<close>

definition sizeToResolution :: "Size \<Rightarrow> real" where
  "sizeToResolution size0 = fst size0 * snd size0"

text \<open>Modelled from the spec: \<open>sizeToCenter\<close> of @allmaps/stdlib (missing); a
  size is the rectangle from the origin to \<open>(w, h)\<close>, and this is its middle.\<close>

definition sizeToCenter :: "Size \<Rightarrow> Point" where
  "sizeToCenter size0 = (fst size0 / 2, snd size0 / 2)"

text \<open>Modelled from the spec: \<open>sizeToBbox\<close> of @allmaps/stdlib (missing); the
  bbox \<open>[0, 0, w, h]\<close> of a size.\<close>

definition sizeToBbox :: "Size \<Rightarrow> Bbox" where
  "sizeToBbox size0 = (0, 0, fst size0, snd size0)"

text \<open>Modelled from the spec: \<open>bboxToRectangle\<close> of @allmaps/stdlib (missing);
  the four corners of a bbox, counter-clockwise from \<open>(minX, minY)\<close>.\<close>

definition bboxToRectangle :: "Bbox \<Rightarrow> Rectangle" where
  "bboxToRectangle b =
     (case b of (x0, y0, x1, y1) \<Rightarrow> [(x0, y0), (x1, y0), (x1, y1), (x0, y1)])"

text \<open>Modelled from the spec: \<open>sizeToRectangle\<close> of @allmaps/stdlib (missing);
  the corners of the bbox of a size.\<close>

definition sizeToRectangle :: "Size \<Rightarrow> Rectangle" where
  "sizeToRectangle size0 = bboxToRectangle (sizeToBbox size0)"

text \<open>Modelled from the spec: \<open>bboxToSize\<close> of @allmaps/stdlib (missing); a
  bbox is \<open>[minX, minY, maxX, maxY]\<close>, and this is its width and height.\<close>

definition bboxToSize :: "Bbox \<Rightarrow> Size" where
  "bboxToSize b = (case b of (x0, y0, x1, y1) \<Rightarrow> (x1 - x0, y1 - y0))"

text \<open>Modelled from the spec: \<open>bboxToCenter\<close> of @allmaps/stdlib (missing);
  the middle of a bbox.\<close>

definition bboxToCenter :: "Bbox \<Rightarrow> Point" where
  "bboxToCenter b = (case b of (x0, y0, x1, y1) \<Rightarrow> ((x0 + x1) / 2, (y0 + y1) / 2))"

text \<open>Modelled from the spec: \<open>computeBbox\<close> of @allmaps/stdlib (missing);
  the smallest and largest coordinates of the points. For no points JavaScript
  yields infinities: \<open>None\<close>.\<close>

fun computeBbox :: "Point list \<Rightarrow> Bbox option" where
  "computeBbox [] = None"
| "computeBbox (p # ps) =
     Some (fold (\<lambda>q (x0, y0, x1, y1).
                   (min x0 (fst q), min y0 (snd q), max x1 (fst q), max y1 (snd q)))
                ps (fst p, snd p, fst p, snd p))"

text \<open>Modelled from the spec: \<open>midPoint\<close> of @allmaps/stdlib (missing); the
  mean of the points given. Viewport.ts calls it with the four corners of a
  rectangle; for no points JavaScript divides zero by zero: \<open>None\<close>.\<close>

definition midPoint :: "Point list \<Rightarrow> Point option" where
  "midPoint ps =
     (if ps = [] then None
      else Some (sum_list (map fst ps) / real (length ps),
                 sum_list (map snd ps) / real (length ps)))"

text \<open>Modelled from the spec: \<open>translatePoint\<close> of @allmaps/stdlib (missing);
  adds the translation to the point, or subtracts it when the third argument is
  \<open>'substract'\<close>.\<close>

definition translatePoint :: "Point \<Rightarrow> Point \<Rightarrow> TranslateOp \<Rightarrow> Point" where
  "translatePoint p t addOrSubstract =
     (case addOrSubstract of
        Add \<Rightarrow> (fst p + fst t, snd p + snd t)
      | Substract \<Rightarrow> (fst p - fst t, snd p - snd t))"

text \<open>Modelled from the spec: \<open>translatePoints\<close> of @allmaps/stdlib (missing);
  \<open>translatePoint\<close> on every point; Viewport.ts leaves the third argument out
  to add.\<close>

definition translatePoints :: "Point list \<Rightarrow> Point \<Rightarrow> TranslateOp \<Rightarrow> Point list" where
  "translatePoints ps t addOrSubstract = map (\<lambda>p. translatePoint p t addOrSubstract) ps"

text \<open>Modelled from the spec: \<open>rotatePoint\<close> of @allmaps/stdlib (missing); a
  rotation about the origin, counter-clockwise for a positive angle (the spec's
  rotation is "radians, counter-clockwise"). The angle is optional in the callers:
  \<open>undefined\<close> is \<open>None\<close> and stands for no rotation.\<close>

definition rotatePoint :: "Point \<Rightarrow> real option \<Rightarrow> Point" where
  "rotatePoint p angle =
     (case angle of
        None \<Rightarrow> p
      | Some a \<Rightarrow> (fst p * cos a - snd p * sin a, fst p * sin a + snd p * cos a))"

text \<open>Modelled from the spec: \<open>rotatePoints\<close> of @allmaps/stdlib (missing);
  \<open>rotatePoint\<close> on every point.\<close>

definition rotatePoints :: "Point list \<Rightarrow> real option \<Rightarrow> Point list" where
  "rotatePoints ps angle = map (\<lambda>p. rotatePoint p angle) ps"

text \<open>Modelled from the spec: \<open>sizesToScale\<close> of @allmaps/stdlib (missing);
  the ratio of the first size to the second, per axis, the larger of the two for
  \<open>contain\<close> ("map fits entirely inside viewport") and the smaller for
  \<open>cover\<close> ("viewport fully covered by map"). A zero in the second size
  makes a ratio infinite or \<open>NaN\<close>.\<close>

definition sizesToScale :: "Size \<Rightarrow> Size \<Rightarrow> Fit \<Rightarrow> JsNumber" where
  "sizesToScale size0 size1 fit =
     (case fit of
        Contain \<Rightarrow> jsMax (jsDivide (fst size0) (fst size1)) (jsDivide (snd size0) (snd size1))
      | Cover \<Rightarrow> jsMin (jsDivide (fst size0) (fst size1)) (jsDivide (snd size0) (snd size1)))"


subsection \<open>Affine transforms (\<open>shared/matrix.js\<close>)\<close>

text \<open>
  Viewport.ts imports \<open>composeTransform\<close>, \<open>applyTransform\<close> and
  \<open>invertTransform\<close> from \<open>render/src/shared/matrix.js\<close>, which is not part
  of the sources verified here either. A transform \<open>[a, b, c, d, e, f]\<close> maps
  \<open>(x, y)\<close> to \<open>(a x + c y + e, b x + d y + f)\<close>.
\<close>

text \<open>Modelled from the spec: \<open>composeTransform\<close> of \<open>shared/matrix.js\<close>
  (missing). \<open>composeTransform dx1 dy1 sx sy angle dx2 dy2\<close> is, as the spec
  lists it for projectedGeo \<open>\<rightarrow>\<close> viewport: translate by \<open>(dx2, dy2)\<close>,
  rotate by \<open>angle\<close>, scale by \<open>(sx, sy)\<close>, translate by \<open>(dx1, dy1)\<close>.\<close>

definition composeTransform ::
  "real \<Rightarrow> real \<Rightarrow> real \<Rightarrow> real \<Rightarrow> real \<Rightarrow> real \<Rightarrow> real \<Rightarrow> Transform" where
  "composeTransform dx1 dy1 sx sy angle dx2 dy2 =
     (sx * cos angle, sy * sin angle, - sx * sin angle, sy * cos angle,
      dx2 * sx * cos angle - dy2 * sx * sin angle + dx1,
      dx2 * sy * sin angle + dy2 * sy * cos angle + dy1)"

text \<open>Modelled from the spec: \<open>applyTransform\<close> of \<open>shared/matrix.js\<close>
  (missing); the image of a point.\<close>

definition applyTransform :: "Transform \<Rightarrow> Point \<Rightarrow> Point" where
  "applyTransform t p =
     (case t of (a, b, c, d, e, f) \<Rightarrow>
        (a * fst p + c * snd p + e, b * fst p + d * snd p + f))"

text \<open>Modelled from the spec: the determinant of the linear part of a transform,
  which "invertibility requires" not to vanish.\<close>

definition getDeterminant :: "Transform \<Rightarrow> real" where
  "getDeterminant t = (case t of (a, b, c, d, e, f) \<Rightarrow> a * d - b * c)"

text \<open>Modelled from the spec: \<open>invertTransform\<close> of \<open>shared/matrix.js\<close>
  (missing); "all transforms must be composable and invertible". The inverse of a
  transform of determinant zero has non-finite entries: \<open>None\<close>.\<close>

definition invertTransform :: "Transform \<Rightarrow> Transform option" where
  "invertTransform t =
     (case t of (a, b, c, d, e, f) \<Rightarrow>
        (let determinant = getDeterminant t in
         if determinant = 0 then None
         else Some (d / determinant, - b / determinant, - c / determinant, a / determinant,
                    (c * f - d * e) / determinant, - (a * f - b * e) / determinant)))"

text \<open>Modelled from the spec: the composition of two transforms, the second
  applied first.\<close>

definition multiplyTransform :: "Transform \<Rightarrow> Transform \<Rightarrow> Transform" where
  "multiplyTransform t1 t2 =
     (case t1 of (a1, b1, c1, d1, e1, f1) \<Rightarrow>
      case t2 of (a2, b2, c2, d2, e2, f2) \<Rightarrow>
        (a1 * a2 + c1 * b2, b1 * a2 + d1 * b2,
         a1 * c2 + c1 * d2, b1 * c2 + d1 * d2,
         a1 * e2 + c1 * f2 + e1, b1 * e2 + d1 * f2 + f1))"

text \<open>The identity transform, \<open>[1, 0, 0, 1, 0, 0]\<close>, the initial value of the
  four transform fields of the class.\<close>

definition identityTransform :: Transform where
  "identityTransform = (1, 0, 0, 1, 0, 0)"

section \<open>The viewport (\<open>render/src/viewport/Viewport.ts\<close>)\<close>

text \<open>\<open>Math.round\<close>: the nearest integer, a tie going up.\<close>

definition Math_round :: "real \<Rightarrow> real" where
  "Math_round x = of_int \<lfloor>x + 1 / 2\<rfloor>"

text \<open>
  The fields of the class, in the order the constructor assigns them. The fields in
  longitude and latitude (\<open>geoCenter\<close>, \<open>geoRectangle\<close>, \<open>geoSize\<close>,
  \<open>geoResolution\<close>, \<open>geoRectangleBbox\<close>) are the images of the projected ones
  under the external projection \<open>webMercatorToLonLat\<close>; nothing below reads
  them and they are left out. A transform that divides by a field is an option:
  \<open>None\<close> where JavaScript holds non-finite entries.
\<close>

record Viewport =
  projectedGeoCenter :: Point
  projectedGeoPerViewportScale :: real
  rotation :: real
  viewportSize :: Size
  devicePixelRatio :: real
  projectedGeoRectangle :: Rectangle
  projectedGeoRectangleBbox :: "Bbox option"
  projectedGeoSize :: Size
  projectedGeoResolution :: real
  viewportResolution :: real
  viewportCenter :: Point
  viewportBbox :: Bbox
  viewportRectangle :: Rectangle
  canvasCenter :: Point
  canvasSize :: Size
  canvasResolution :: real
  canvasBbox :: Bbox
  canvasRectangle :: Rectangle
  projectedGeoPerCanvasScale :: JsNumber
  projectedGeoToViewportTransform :: "Transform option"
  projectedGeoToCanvasTransform :: "Transform option"
  projectedGeoToClipTransform :: "Transform option"
  viewportToClipTransform :: "Transform option"

text \<open>\<open>computeProjectedGeoRectangle\<close> (lines 419-436): scale the size, take its
  rectangle, centre it on its mid point, rotate, translate to the centre.
  \<open>midPoint(...rectangle)\<close> has four points to average, so its \<open>None\<close>
  branch is never taken; it is written out all the same.\<close>

definition computeProjectedGeoRectangle :: "Size \<Rightarrow> real \<Rightarrow> real \<Rightarrow> Point \<Rightarrow> Rectangle" where
  "computeProjectedGeoRectangle viewportSize0 projectedGeoPerViewportScale0 rotation0
       projectedGeoCenter0 =
     (let scaled = scaleSize viewportSize0 projectedGeoPerViewportScale0;
          rectangle = sizeToRectangle scaled;
          centered = (case midPoint rectangle of
                        None \<Rightarrow> rectangle
                      | Some m \<Rightarrow> translatePoints rectangle m Substract);
          rotated = rotatePoints centered (Some rotation0);
          translated = translatePoints rotated projectedGeoCenter0 Add
      in translated)"

text \<open>The four \<open>compose...Transform\<close> methods (lines 357-403), as functions of
  the fields they read. Each divides by a field; a quotient that is not finite
  gives \<open>None\<close>.\<close>

definition composeProjectedGeoToViewportTransform ::
  "Point \<Rightarrow> real \<Rightarrow> real \<Rightarrow> Point \<Rightarrow> Transform option" where
  "composeProjectedGeoToViewportTransform viewportCenter0 projectedGeoPerViewportScale0
       rotation0 projectedGeoCenter0 =
     (if projectedGeoPerViewportScale0 = 0 then None
      else Some (composeTransform
                   (fst viewportCenter0)
                   (snd viewportCenter0)
                   (1 / projectedGeoPerViewportScale0)
                   (- 1 / projectedGeoPerViewportScale0)
                   (- rotation0)
                   (- fst projectedGeoCenter0)
                   (- snd projectedGeoCenter0)))"

definition composeProjectedGeoToCanvasTransform ::
  "Point \<Rightarrow> JsNumber \<Rightarrow> real \<Rightarrow> Point \<Rightarrow> Transform option" where
  "composeProjectedGeoToCanvasTransform canvasCenter0 projectedGeoPerCanvasScale0
       rotation0 projectedGeoCenter0 =
     (case jsReciprocal projectedGeoPerCanvasScale0 of
        None \<Rightarrow> None
      | Some k \<Rightarrow>
          Some (composeTransform
                  (fst canvasCenter0)
                  (snd canvasCenter0)
                  k
                  (- k)
                  (- rotation0)
                  (- fst projectedGeoCenter0)
                  (- snd projectedGeoCenter0)))"

definition composeProjectedGeoToClipTransform ::
  "real \<Rightarrow> Size \<Rightarrow> real \<Rightarrow> Point \<Rightarrow> Transform option" where
  "composeProjectedGeoToClipTransform projectedGeoPerViewportScale0 viewportSize0
       rotation0 projectedGeoCenter0 =
     (if projectedGeoPerViewportScale0 * fst viewportSize0 = 0
         \<or> projectedGeoPerViewportScale0 * snd viewportSize0 = 0 then None
      else Some (composeTransform
                   0
                   0
                   (2 / (projectedGeoPerViewportScale0 * fst viewportSize0))
                   (2 / (projectedGeoPerViewportScale0 * snd viewportSize0))
                   (- rotation0)
                   (- fst projectedGeoCenter0)
                   (- snd projectedGeoCenter0)))"

definition composeViewportToClipTransform :: "Size \<Rightarrow> Point \<Rightarrow> Transform option" where
  "composeViewportToClipTransform viewportSize0 viewportCenter0 =
     (if fst viewportSize0 = 0 \<or> snd viewportSize0 = 0 then None
      else Some (composeTransform
                   0
                   0
                   (2 / fst viewportSize0)
                   (- 2 / snd viewportSize0)
                   0
                   (- fst viewportCenter0)
                   (- snd viewportCenter0)))"

text \<open>The constructor (lines 119-177). \<open>rotation\<close> and \<open>devicePixelRatio\<close>
  are optional arguments with defaults 0 and 1. The size is rounded first and
  stored; every later line reads the stored fields (\<open>this.viewportSize\<close> and
  the others), which are the \<open>let\<close>-bound names here.\<close>

definition newViewport ::
  "Size \<Rightarrow> Point \<Rightarrow> real \<Rightarrow> real option \<Rightarrow> real option \<Rightarrow> Viewport" where
  "newViewport viewportSize0 projectedGeoCenter0 projectedGeoPerViewportScale0
       rotation0 devicePixelRatio0 =
     (let center = projectedGeoCenter0;
          scale = projectedGeoPerViewportScale0;
          rot = (case rotation0 of None \<Rightarrow> 0 | Some r \<Rightarrow> r);
          vs = (Math_round (fst viewportSize0), Math_round (snd viewportSize0));
          dpr = (case devicePixelRatio0 of None \<Rightarrow> 1 | Some d \<Rightarrow> d);
          rect = computeProjectedGeoRectangle vs scale rot center;
          rectBbox = computeBbox rect;
          pgSize = scaleSize vs scale;
          pgResolution = sizeToResolution pgSize;
          vResolution = sizeToResolution vs;
          vCenter = sizeToCenter vs;
          vBbox = sizeToBbox vs;
          vRectangle = bboxToRectangle vBbox;
          cCenter = scalePoint vCenter dpr;
          cSize = scaleSize vs dpr;
          cResolution = sizeToResolution cSize;
          cBbox = sizeToBbox cSize;
          cRectangle = bboxToRectangle cBbox;
          cScale = jsDivide scale dpr
      in \<lparr> projectedGeoCenter = center,
           projectedGeoPerViewportScale = scale,
           rotation = rot,
           viewportSize = vs,
           devicePixelRatio = dpr,
           projectedGeoRectangle = rect,
           projectedGeoRectangleBbox = rectBbox,
           projectedGeoSize = pgSize,
           projectedGeoResolution = pgResolution,
           viewportResolution = vResolution,
           viewportCenter = vCenter,
           viewportBbox = vBbox,
           viewportRectangle = vRectangle,
           canvasCenter = cCenter,
           canvasSize = cSize,
           canvasResolution = cResolution,
           canvasBbox = cBbox,
           canvasRectangle = cRectangle,
           projectedGeoPerCanvasScale = cScale,
           projectedGeoToViewportTransform =
             composeProjectedGeoToViewportTransform vCenter scale rot center,
           projectedGeoToCanvasTransform =
             composeProjectedGeoToCanvasTransform cCenter cScale rot center,
           projectedGeoToClipTransform =
             composeProjectedGeoToClipTransform scale vs rot center,
           viewportToClipTransform = composeViewportToClipTransform vs vCenter \<rparr>)"


subsection \<open>The static factories\<close>

text \<open>
  What a factory can do: throw (\<open>Inl\<close>), or return a viewport (\<open>Inr\<close>).
  \<open>EmptyInput\<close> is the \<open>Error\<close> of lines 205 and 289 ("WarpedMapList has no
  projected convex hull. Possibly because it is empty."); \<open>TypeError\<close> is what
  JavaScript raises on reading a property of \<open>undefined\<close>. A returned viewport
  is \<open>None\<close> when its centre or scale is not a finite number (the ring has no
  point, or a division by zero made the scale infinite or \<open>NaN\<close>).
\<close>

datatype error = EmptyInput | TypeError

text \<open>\<open>rotation ? -rotation : undefined\<close>: zero and \<open>undefined\<close> are
  falsy.\<close>

definition negatedRotation :: "real option \<Rightarrow> real option" where
  "negatedRotation rotation0 =
     (case rotation0 of
        None \<Rightarrow> None
      | Some r \<Rightarrow> if r = 0 then None else Some (- r))"

text \<open>\<open>fromSizeAndPolygon\<close> (lines 232-263); \<open>fit\<close> defaults to
  \<open>'contain'\<close> and \<open>zoom\<close> to 1. Only the first ring of the polygon is
  read; a polygon with no ring hands \<open>undefined\<close> to \<open>rotatePoints\<close>.\<close>

definition fromSizeAndPolygon ::
  "Size \<Rightarrow> Polygon \<Rightarrow> Fit option \<Rightarrow> real option \<Rightarrow> real option \<Rightarrow> real option
     \<Rightarrow> error + Viewport option" where
  "fromSizeAndPolygon viewportSize0 projectedGeoPolygon fit0 rotation0 devicePixelRatio0 zoom0 =
     (let fit = (case fit0 of None \<Rightarrow> Contain | Some f \<Rightarrow> f);
          zoom = (case zoom0 of None \<Rightarrow> 1 | Some z \<Rightarrow> z)
      in case projectedGeoPolygon of
           [] \<Rightarrow> Inl TypeError
         | projectedGeoRing # _ \<Rightarrow>
             (let rotatedProjectedGeoRing =
                    rotatePoints projectedGeoRing (negatedRotation rotation0)
              in case computeBbox rotatedProjectedGeoRing of
                   None \<Rightarrow> Inr None
                 | Some rotatedProjectedGeoBbox \<Rightarrow>
                     (let rotatedProjectedGeoSize = bboxToSize rotatedProjectedGeoBbox;
                          rotatedProjectedGeoCenter = bboxToCenter rotatedProjectedGeoBbox
                      in case sizesToScale rotatedProjectedGeoSize viewportSize0 fit of
                           Finite projectedGeoPerViewportScale0 \<Rightarrow>
                             (let projectedGeoCenter0 =
                                    rotatePoint rotatedProjectedGeoCenter rotation0
                              in Inr (Some (newViewport
                                              viewportSize0
                                              projectedGeoCenter0
                                              (projectedGeoPerViewportScale0 * zoom)
                                              rotation0
                                              devicePixelRatio0)))
                         | _ \<Rightarrow> Inr None)))"

text \<open>\<open>fromScaleAndPolygon\<close> (lines 314-341); \<open>zoom\<close> defaults to 1.\<close>

definition fromScaleAndPolygon ::
  "Polygon \<Rightarrow> real \<Rightarrow> real option \<Rightarrow> real option \<Rightarrow> real option
     \<Rightarrow> error + Viewport option" where
  "fromScaleAndPolygon projectedGeoPolygon projectedGeoPerViewportScale0 rotation0
       devicePixelRatio0 zoom0 =
     (let zoom = (case zoom0 of None \<Rightarrow> 1 | Some z \<Rightarrow> z)
      in case projectedGeoPolygon of
           [] \<Rightarrow> Inl TypeError
         | projectedGeoRing # _ \<Rightarrow>
             if projectedGeoPerViewportScale0 = 0 then Inr None
             else
               (let viewportRing =
                      scalePoints (rotatePoints projectedGeoRing (negatedRotation rotation0))
                        (1 / projectedGeoPerViewportScale0)
                in case computeBbox viewportRing of
                     None \<Rightarrow> Inr None
                   | Some viewportBbox0 \<Rightarrow>
                       (let viewportSize0 = bboxToSize viewportBbox0;
                            viewportCenter0 = bboxToCenter viewportBbox0;
                            projectedGeoCenter0 =
                              rotatePoint
                                (scalePoint viewportCenter0 projectedGeoPerViewportScale0)
                                rotation0
                        in Inr (Some (newViewport
                                        viewportSize0
                                        projectedGeoCenter0
                                        (projectedGeoPerViewportScale0 * zoom)
                                        rotation0
                                        devicePixelRatio0)))))"

subsection \<open>The warped map list, as the factories see it\<close>

text \<open>
  The factories on maps call \<open>getProjectedConvexHull\<close> of the warped map list
  (\<open>render/src/maps/WarpedMapList.ts\<close>), which is not part of the sources
  verified here. The spec gives the list "a visibility bit per map" and the
  operation \<open>convexHull([mapIds])\<close>, from which the factories fit "the convex
  hull of selected maps"; the package's README has it "return the convex hull of
  all visible maps in this list" and "undefined if the list is empty".
\<close>

text \<open>Modelled from the spec: a warped map, as far as the hull of a list reads it:
  its id, its visibility bit and its mask in projected coordinates.\<close>

record WarpedMap =
  mapId :: string
  visible :: bool
  projectedGeoMask :: Ring

type_synonym WarpedMapList = "WarpedMap list"

text \<open>Modelled from the spec: the maps that \<open>mapIds\<close> selects; every map when
  \<open>mapIds\<close> is left out.\<close>

definition getWarpedMaps :: "WarpedMapList \<Rightarrow> string list option \<Rightarrow> WarpedMap list" where
  "getWarpedMaps warpedMapList mapIds =
     (case mapIds of
        None \<Rightarrow> warpedMapList
      | Some ids \<Rightarrow> filter (\<lambda>m. mapId m \<in> set ids) warpedMapList)"

text \<open>Modelled from the spec: \<open>getProjectedConvexHull\<close> of the list (missing):
  the convex hull of the masks of the selected maps that are visible, and
  \<open>undefined\<close> when there is no such map. The hull algorithm itself is the
  parameter \<open>hullOf\<close>.\<close>

definition getProjectedConvexHull ::
  "(Point list \<Rightarrow> Ring) \<Rightarrow> WarpedMapList \<Rightarrow> string list option \<Rightarrow> Ring option" where
  "getProjectedConvexHull hullOf warpedMapList mapIds =
     (case filter visible (getWarpedMaps warpedMapList mapIds) of
        [] \<Rightarrow> None
      | m # ms \<Rightarrow> Some (hullOf (concat (map projectedGeoMask (m # ms)))))"

text \<open>\<open>fromSizeAndMaps\<close> (lines 193-218) and \<open>fromScaleAndMaps\<close> (lines
  278-301): no hull, and the factory throws; otherwise the hull is the only ring
  of the polygon handed on. \<open>fit\<close> has its default applied here.\<close>

definition fromSizeAndMaps ::
  "(Point list \<Rightarrow> Ring) \<Rightarrow> Size \<Rightarrow> WarpedMapList \<Rightarrow> string list option \<Rightarrow> Fit option
     \<Rightarrow> real option \<Rightarrow> real option \<Rightarrow> real option \<Rightarrow> error + Viewport option" where
  "fromSizeAndMaps hullOf viewportSize0 warpedMapList mapIds fit0 rotation0
       devicePixelRatio0 zoom0 =
     (let fit = (case fit0 of None \<Rightarrow> Contain | Some f \<Rightarrow> f)
      in case getProjectedConvexHull hullOf warpedMapList mapIds of
           None \<Rightarrow> Inl EmptyInput
         | Some projectedGeoConvexHull \<Rightarrow>
             fromSizeAndPolygon viewportSize0 [projectedGeoConvexHull] (Some fit)
               rotation0 devicePixelRatio0 zoom0)"

definition fromScaleAndMaps ::
  "(Point list \<Rightarrow> Ring) \<Rightarrow> real \<Rightarrow> WarpedMapList \<Rightarrow> string list
     \<Rightarrow> real option \<Rightarrow> real option \<Rightarrow> real option \<Rightarrow> error + Viewport option" where
  "fromScaleAndMaps hullOf projectedGeoPerViewportScale0 warpedMapList mapIds rotation0
       devicePixelRatio0 zoom0 =
     (case getProjectedConvexHull hullOf warpedMapList (Some mapIds) of
        None \<Rightarrow> Inl EmptyInput
      | Some projectedGeoConvexHull \<Rightarrow>
          fromScaleAndPolygon [projectedGeoConvexHull] projectedGeoPerViewportScale0
            rotation0 devicePixelRatio0 zoom0)"

subsection \<open>Viewport objects in a store\<close>










subsection \<open>Describing rectangles and enclosure\<close>

text \<open>The rectangle of the specification's data model, written from its words:
  "rotated rectangle centered at center with size viewportSize \<open>\<cdot>\<close> scale",
  that is the axis-aligned rectangle of the given size about the origin, each
  corner rotated by the angle and moved by the centre.\<close>

definition centeredRotatedRectangle :: "Size \<Rightarrow> real \<Rightarrow> Point \<Rightarrow> Rectangle" where
  "centeredRotatedRectangle size0 angle c =
     map (\<lambda>p. (fst p * cos angle - snd p * sin angle + fst c,
               fst p * sin angle + snd p * cos angle + snd c))
         [(- fst size0 / 2, - snd size0 / 2), (fst size0 / 2, - snd size0 / 2),
          (fst size0 / 2, snd size0 / 2), (- fst size0 / 2, snd size0 / 2)]"






section \<open>The tile server's guard (\<open>apps/tileserver/src/warped-tile-response.ts\<close>)\<close>

text \<open>
  The guard of \<open>createWarpedTileResponse\<close> compares the tile coordinates with
  zero, and what it does on \<open>NaN\<close> and the infinities is the point of it. The
  coordinates are therefore of type \<open>JsNumber\<close>; \<open>ge0\<close> is \<open>x >= 0\<close>,
  false for \<open>NaN\<close>.
\<close>

definition ge0 :: "JsNumber \<Rightarrow> bool" where
  "ge0 n = (case n of
              Finite r \<Rightarrow> 0 \<le> r
            | PosInfinity \<Rightarrow> True
            | NegInfinity \<Rightarrow> False
            | NaN \<Rightarrow> False)"

definition isNegative :: "JsNumber \<Rightarrow> bool" where
  "isNegative n = (case n of
                     Finite r \<Rightarrow> r < 0
                   | PosInfinity \<Rightarrow> False
                   | NegInfinity \<Rightarrow> True
                   | NaN \<Rightarrow> False)"

definition isNaN :: "JsNumber \<Rightarrow> bool" where
  "isNaN n = (case n of NaN \<Rightarrow> True | _ \<Rightarrow> False)"

definition isPositiveInteger :: "JsNumber \<Rightarrow> bool" where
  "isPositiveInteger n = (case n of Finite r \<Rightarrow> 0 < r \<and> r \<in> \<int> | _ \<Rightarrow> False)"

record XYZTile =
  tileX :: JsNumber
  tileY :: JsNumber
  tileZ :: JsNumber

datatype TileResolution = Normal | Retina

text \<open>What \<open>createWarpedTileResponse\<close> can raise: the \<open>Error\<close> of its own
  guard, with its message, or whatever the rendering below the guard raises (the
  renderer, the fetches and the PNG encoder are collaborators; their errors are
  of the type \<open>'e\<close>).\<close>

datatype 'e ResponseError = GuardError string | RenderError 'e

text \<open>\<open>createWarpedTileResponse\<close> (lines 27-69). Everything after the guard
  (building the renderer, adding the maps, rendering the viewport of the tile,
  encoding the PNG) is the parameter \<open>renderWarpedTile\<close>.\<close>

definition createWarpedTileResponse ::
  "('m list \<Rightarrow> 'o \<Rightarrow> XYZTile \<Rightarrow> TileResolution \<Rightarrow> 'e + 'r)
     \<Rightarrow> 'm list \<Rightarrow> 'o \<Rightarrow> XYZTile \<Rightarrow> TileResolution option \<Rightarrow> 'e ResponseError + 'r" where
  "createWarpedTileResponse renderWarpedTile georeferencedMaps options xyz resolution0 =
     (let resolution = (case resolution0 of None \<Rightarrow> Normal | Some r \<Rightarrow> r)
      in if \<not> (ge0 (tileX xyz) \<and> ge0 (tileY xyz) \<and> ge0 (tileZ xyz))
         then Inl (GuardError ''x, y and z must be positive integers'')
         else (case renderWarpedTile georeferencedMaps options xyz resolution of
                 Inl e \<Rightarrow> Inl (RenderError e)
               | Inr response \<Rightarrow> Inr response))"

section \<open>Annotation validation (\<open>MapSchema\<close>, \<open>src/unnamed/part_001\<close>)\<close>

text \<open>
  The schemas are zod schemas; a schema is modelled as the predicate "parsing this
  JSON value succeeds". A parsed JSON object is a list of key-value pairs with
  \<open>field\<close> as its lookup.
\<close>

datatype Json =
    JNull
  | JBool bool
  | JNumber real
  | JString string
  | JArray "Json list"
  | JObject "(string \<times> Json) list"

definition field :: "string \<Rightarrow> Json \<Rightarrow> Json option" where
  "field k j = (case j of JObject kvs \<Rightarrow> map_of kvs k | _ \<Rightarrow> None)"

text \<open>The zod combinators the file uses. \<open>z.object\<close> wants an object and checks
  each listed key; a key that is absent reads as \<open>undefined\<close>, which only an
  \<open>.optional()\<close> schema accepts. Keys that are not listed are ignored.\<close>

definition required :: "(Json \<Rightarrow> bool) \<Rightarrow> Json option \<Rightarrow> bool" where
  "required schema v = (case v of None \<Rightarrow> False | Some j \<Rightarrow> schema j)"

definition optional :: "(Json \<Rightarrow> bool) \<Rightarrow> Json option \<Rightarrow> bool" where
  "optional schema v = (case v of None \<Rightarrow> True | Some j \<Rightarrow> schema j)"

definition z_object :: "(string \<times> (Json option \<Rightarrow> bool)) list \<Rightarrow> Json \<Rightarrow> bool" where
  "z_object shape j =
     (case j of
        JObject kvs \<Rightarrow> list_all (\<lambda>ks. snd ks (map_of kvs (fst ks))) shape
      | _ \<Rightarrow> False)"

definition z_array :: "(Json \<Rightarrow> bool) \<Rightarrow> Json \<Rightarrow> bool" where
  "z_array schema j = (case j of JArray js \<Rightarrow> list_all schema js | _ \<Rightarrow> False)"

definition z_literal :: "string \<Rightarrow> Json \<Rightarrow> bool" where
  "z_literal s j = (j = JString s)"

definition z_string :: "(string \<Rightarrow> bool) \<Rightarrow> Json \<Rightarrow> bool" where
  "z_string check j = (case j of JString s \<Rightarrow> check s | _ \<Rightarrow> False)"

definition z_number_positive :: "Json \<Rightarrow> bool" where
  "z_number_positive j = (case j of JNumber n \<Rightarrow> 0 < n | _ \<Rightarrow> False)"

text \<open>What the file imports and does not define: the five schemas of
  \<open>../shared.js\<close> (missing), and zod's own checks of a URL and of a datetime
  string. They are parameters of the schemas below.\<close>

record Imported =
  PointSchema :: "Json \<Rightarrow> bool"
  ImageServiceSchema :: "Json \<Rightarrow> bool"
  PartOfSchema :: "Json \<Rightarrow> bool"
  ResourceMaskSchema :: "Json \<Rightarrow> bool"
  TransformationSchema :: "Json \<Rightarrow> bool"
  isUrl :: "string \<Rightarrow> bool"
  isDatetime :: "string \<Rightarrow> bool"

text \<open>\<open>GCPSchema\<close> (lines 11-14), \<open>ResourceSchema\<close> (lines 16-22),
  \<open>MapSchema\<close> (lines 24-36) and \<open>MapsSchema\<close> (line 38).\<close>

definition GCPSchema :: "Imported \<Rightarrow> Json \<Rightarrow> bool" where
  "GCPSchema imp =
     z_object [(''resource'', required (PointSchema imp)),
               (''geo'', required (PointSchema imp))]"

definition ResourceSchema :: "Imported \<Rightarrow> Json \<Rightarrow> bool" where
  "ResourceSchema imp =
     z_object [(''id'', required (z_string (isUrl imp))),
               (''height'', optional z_number_positive),
               (''width'', optional z_number_positive),
               (''type'', required (ImageServiceSchema imp)),
               (''partOf'', optional (z_array (PartOfSchema imp)))]"

definition MapSchema :: "Imported \<Rightarrow> Json \<Rightarrow> bool" where
  "MapSchema imp =
     z_object [(''@context'',
                  optional (z_literal ''https://schemas.allmaps.org/map/2/context.json'')),
               (''type'', required (z_literal ''GeoreferencedMap'')),
               (''id'', optional (z_string (\<lambda>s. True))),
               (''created'', optional (z_string (isDatetime imp))),
               (''modified'', optional (z_string (isDatetime imp))),
               (''resource'', required (ResourceSchema imp)),
               (''gcps'', required (z_array (GCPSchema imp))),
               (''resourceMask'', required (ResourceMaskSchema imp)),
               (''transformation'', optional (TransformationSchema imp))]"

definition MapsSchema :: "Imported \<Rightarrow> Json \<Rightarrow> bool" where
  "MapsSchema imp = z_array (MapSchema imp)"

text \<open>The GCPs of a map value, and the map with its GCPs replaced.\<close>

definition gcpsOf :: "Json \<Rightarrow> Json list option" where
  "gcpsOf j = (case field ''gcps'' j of Some (JArray gs) \<Rightarrow> Some gs | _ \<Rightarrow> None)"

definition withGcps :: "Json list \<Rightarrow> Json \<Rightarrow> Json" where
  "withGcps gs j =
     (case j of
        JObject kvs \<Rightarrow>
          JObject ((''gcps'', JArray gs) # filter (\<lambda>kv. fst kv \<noteq> ''gcps'') kvs)
      | _ \<Rightarrow> j)"

text \<open>Modelled from the spec: the transformation kinds of the data model,
  "one of {helmert, polynomial-1, polynomial-2, polynomial-3, thin-plate-spline,
  projective}".\<close>

datatype TransformationKind =
  Helmert | Polynomial1 | Polynomial2 | Polynomial3 | ThinPlateSpline | Projective

text \<open>Modelled from the spec: the minimum number of GCPs a kind needs, "3 for
  affine/polynomial-1, 6 for polynomial-2, one for helmert, etc."; the spec gives
  no number for the other kinds.\<close>

definition minimumGcps :: "TransformationKind \<Rightarrow> nat option" where
  "minimumGcps k = (case k of
                      Helmert \<Rightarrow> Some 1
                    | Polynomial1 \<Rightarrow> Some 3
                    | Polynomial2 \<Rightarrow> Some 6
                    | _ \<Rightarrow> None)"

text \<open>Modelled from the spec: the kind a name stands for, with the names of the
  data model.\<close>

definition parseKind :: "string \<Rightarrow> TransformationKind option" where
  "parseKind s =
     (if s = ''helmert'' then Some Helmert
      else if s = ''polynomial-1'' then Some Polynomial1
      else if s = ''polynomial-2'' then Some Polynomial2
      else if s = ''polynomial-3'' then Some Polynomial3
      else if s = ''thin-plate-spline'' then Some ThinPlateSpline
      else if s = ''projective'' then Some Projective
      else None)"

text \<open>Modelled from the spec: the kind of a map, read from the \<open>type\<close> of its
  \<open>transformation\<close>; a map without one gets a polynomial of order 1.\<close>

definition kindOf :: "Json \<Rightarrow> TransformationKind option" where
  "kindOf j =
     (case field ''transformation'' j of
        None \<Rightarrow> Some Polynomial1
      | Some t \<Rightarrow> (case field ''type'' t of
                     Some (JString s) \<Rightarrow> parseKind s
                   | _ \<Rightarrow> None))"

text \<open>Modelled from the spec: the invariant of the data model, "for a given map
  the set has at least the minimum count required by its transformation kind".\<close>

definition hasMinimumGcps :: "Json \<Rightarrow> bool" where
  "hasMinimumGcps j =
     (case (gcpsOf j, kindOf j) of
        (Some gs, Some k) \<Rightarrow> (case minimumGcps k of Some n \<Rightarrow> n \<le> length gs | None \<Rightarrow> True)
      | _ \<Rightarrow> False)"

text \<open>Modelled from the spec: a point as section 6 writes it, \<open>[x, y]\<close>.\<close>

definition specPoint :: "Json \<Rightarrow> bool" where
  "specPoint j = (case j of JArray [JNumber a, JNumber b] \<Rightarrow> True | _ \<Rightarrow> False)"

text \<open>Modelled from the spec: the imported schemas, as section 6 describes an
  annotation: a point is a pair of numbers, the resource type one of
  \<open>ImageService1\<close>, \<open>2\<close>, \<open>3\<close>, the mask an array of at least three
  points, the transformation an object whose \<open>type\<close> is one of the kinds.
  \<open>partOf\<close> is not described and anything passes; a URL here is a string that
  starts with \<open>https://\<close>, a datetime any non-empty string. These stand in
  only where a concrete annotation has to be run through \<open>MapSchema\<close>.\<close>

definition specImported :: Imported where
  "specImported =
     \<lparr> PointSchema = specPoint,
       ImageServiceSchema =
         (\<lambda>j. j = JString ''ImageService1'' \<or> j = JString ''ImageService2''
                \<or> j = JString ''ImageService3''),
       PartOfSchema = (\<lambda>j. True),
       ResourceMaskSchema =
         (\<lambda>j. case j of JArray ps \<Rightarrow> 3 \<le> length ps \<and> list_all specPoint ps | _ \<Rightarrow> False),
       TransformationSchema =
         (\<lambda>j. case field ''type'' j of Some (JString s) \<Rightarrow> parseKind s \<noteq> None | _ \<Rightarrow> False),
       isUrl = (\<lambda>s. take 8 s = ''https://''),
       isDatetime = (\<lambda>s. s \<noteq> []) \<rparr>"

text \<open>An annotation with no GCP at all, asking for a Helmert transformation.\<close>

definition mapWithoutGcps :: Json where
  "mapWithoutGcps =
     JObject [(''type'', JString ''GeoreferencedMap''),
              (''resource'', JObject [(''id'', JString ''https://example.org/iiif/map''),
                                      (''type'', JString ''ImageService2''),
                                      (''width'', JNumber 100),
                                      (''height'', JNumber 100)]),
              (''gcps'', JArray []),
              (''resourceMask'', JArray [JArray [JNumber 0, JNumber 0],
                                         JArray [JNumber 100, JNumber 0],
                                         JArray [JNumber 100, JNumber 100],
                                         JArray [JNumber 0, JNumber 100]]),
              (''transformation'', JObject [(''type'', JString ''helmert'')])]"

text \<open>An annotation with three GCPs and no transformation given.\<close>

definition mapWithThreeGcps :: Json where
  "mapWithThreeGcps =
     JObject [(''type'', JString ''GeoreferencedMap''),
              (''resource'', JObject [(''id'', JString ''https://example.org/iiif/map''),
                                      (''type'', JString ''ImageService2'')]),
              (''gcps'',
                 JArray [JObject [(''resource'', JArray [JNumber 0, JNumber 0]),
                                  (''geo'', JArray [JNumber 4, JNumber 52])],
                         JObject [(''resource'', JArray [JNumber 100, JNumber 0]),
                                  (''geo'', JArray [JNumber 5, JNumber 52])],
                         JObject [(''resource'', JArray [JNumber 0, JNumber 100]),
                                  (''geo'', JArray [JNumber 4, JNumber 51])]]),
              (''resourceMask'', JArray [JArray [JNumber 0, JNumber 0],
                                         JArray [JNumber 100, JNumber 0],
                                         JArray [JNumber 0, JNumber 100]])]"

section \<open>The texture atlas (\<open>render/src/maps/WebGL2WarpedMap.ts\<close>)\<close>





























section \<open>Fetching a tile (\<open>CacheableWorkerImageDataTile.fetch\<close>,
  \<open>render/src/shared/transform.ts\<close>)\<close>

text \<open>
  \<open>fetch\<close> is an \<open>async\<close> method: it runs until it waits for a promise and
  goes on when the promise settles. The model is a state machine. A state records
  where the method waits; a step is something the environment does: it settles
  the promise waited for, or it calls \<open>abort()\<close> on the tile's abort
  controller. A step that does not concern the state leaves it as it is.

  \<open>AbortError\<close> is an error whose \<open>name\<close> is \<open>'AbortError'\<close>; every other
  thing thrown is \<open>OtherError\<close>.
\<close>

datatype FetchError = AbortError | OtherError

datatype WarpedMapEventType = TILEFETCHED | TILEFETCHERROR

datatype Phase =
    AwaitingResponse
  | AwaitingBlob
  | AwaitingWorker
  | Finished

datatype 'd Step =
    ResponseResolves
  | ResponseRejects FetchError
  | BlobResolves
  | BlobRejects FetchError
  | WorkerConstructorThrows
  | WorkerResolves 'd
  | WorkerRejects
  | AbortCalled

record 'd TileState =
  phase :: Phase
  tileImageData :: "'d option"
  dispatched :: "WarpedMapEventType list"
  signalAborted :: bool
  fetchUrlCalls :: nat
  hasReturned :: bool

text \<open>Calling \<open>fetch()\<close> on a tile without data: \<open>fetchUrl\<close> is called, once,
  and the method waits for the response.\<close>

definition fetchCalled :: "'d TileState" where
  "fetchCalled =
     \<lparr> phase = AwaitingResponse, tileImageData = None, dispatched = [],
       signalAborted = False, fetchUrlCalls = 1, hasReturned = False \<rparr>"

text \<open>The \<open>catch\<close> block (lines 88-97), then \<open>return this.data\<close>.\<close>

definition catchBlock :: "FetchError \<Rightarrow> 'd TileState \<Rightarrow> 'd TileState" where
  "catchBlock err s =
     (case err of
        AbortError \<Rightarrow> s\<lparr> phase := Finished, hasReturned := True \<rparr>
      | OtherError \<Rightarrow> s\<lparr> phase := Finished, hasReturned := True,
                         dispatched := dispatched s @ [TILEFETCHERROR] \<rparr>)"

text \<open>One step. In the \<open>try\<close> block the method waits for \<open>fetchUrl\<close>, then
  for \<open>response.blob()\<close>; it then builds the worker and hangs the \<open>then\<close>
  callback on \<open>getImageData\<close> without waiting for it, so it returns at once
  and the callback runs later, outside the \<open>try\<close>: it sets \<open>this.data\<close>
  and dispatches \<open>TILEFETCHED\<close>. A rejection of the worker's promise has no
  handler.\<close>

fun step :: "'d TileState \<Rightarrow> 'd Step \<Rightarrow> 'd TileState" where
  "step s AbortCalled = s\<lparr> signalAborted := True \<rparr>"
| "step s ResponseResolves =
     (if phase s = AwaitingResponse then s\<lparr> phase := AwaitingBlob \<rparr> else s)"
| "step s (ResponseRejects err) =
     (if phase s = AwaitingResponse then catchBlock err s else s)"
| "step s BlobResolves =
     (if phase s = AwaitingBlob then s\<lparr> phase := AwaitingWorker, hasReturned := True \<rparr> else s)"
| "step s (BlobRejects err) =
     (if phase s = AwaitingBlob then catchBlock err s else s)"
| "step s WorkerConstructorThrows =
     (if phase s = AwaitingBlob then catchBlock OtherError s else s)"
| "step s (WorkerResolves d) =
     (if phase s = AwaitingWorker
      then s\<lparr> phase := Finished, tileImageData := Some d,
               dispatched := dispatched s @ [TILEFETCHED] \<rparr>
      else s)"
| "step s WorkerRejects =
     (if phase s = AwaitingWorker then s\<lparr> phase := Finished \<rparr> else s)"

definition run :: "'d TileState \<Rightarrow> 'd Step list \<Rightarrow> 'd TileState" where
  "run s steps = foldl step s steps"

text \<open>The awaited fetch fails with \<open>err\<close> at this step: the promise the method
  waits for (the response, or its blob) rejects with it.\<close>

definition fetchFailsWith :: "'d TileState \<Rightarrow> 'd Step \<Rightarrow> FetchError \<Rightarrow> bool" where
  "fetchFailsWith s e err =
     ((phase s = AwaitingResponse \<and> e = ResponseRejects err)
      \<or> (phase s = AwaitingBlob \<and> e = BlobRejects err))"

text \<open>What holds of every state a run of \<open>fetch\<close> reaches: \<open>fetchUrl\<close> was
  called once, and until the run has finished nothing was dispatched and no
  data was set.\<close>

definition fetchInvariant :: "'d TileState \<Rightarrow> bool" where
  "fetchInvariant s =
     (fetchUrlCalls s = 1
      \<and> (phase s = Finished \<or> (dispatched s = [] \<and> tileImageData s = None)))"

section \<open>Properties of the viewport\<close>

subsection \<open>Rounding and the rectangle of the viewport\<close>


lemma Math_round_idem: "Math_round (Math_round x) = Math_round x"
  unfolding Math_round_def by (simp add: floor_unique)


lemma computeProjectedGeoRectangle_corners:
  "computeProjectedGeoRectangle (w, h) s r c =
     [((- (w * s) / 2) * cos r - (- (h * s) / 2) * sin r + fst c,
       (- (w * s) / 2) * sin r + (- (h * s) / 2) * cos r + snd c),
      (((w * s) / 2) * cos r - (- (h * s) / 2) * sin r + fst c,
       ((w * s) / 2) * sin r + (- (h * s) / 2) * cos r + snd c),
      (((w * s) / 2) * cos r - ((h * s) / 2) * sin r + fst c,
       ((w * s) / 2) * sin r + ((h * s) / 2) * cos r + snd c),
      ((- (w * s) / 2) * cos r - ((h * s) / 2) * sin r + fst c,
       (- (w * s) / 2) * sin r + ((h * s) / 2) * cos r + snd c)]"
  unfolding computeProjectedGeoRectangle_def
  by (simp add: scaleSize_def sizeToRectangle_def sizeToBbox_def bboxToRectangle_def
      midPoint_def translatePoints_def translatePoint_def rotatePoints_def rotatePoint_def
      Let_def field_simps)

lemma computeProjectedGeoRectangle_spec:
  "computeProjectedGeoRectangle vs s r c =
     centeredRotatedRectangle (fst vs * s, snd vs * s) r c"
  by (cases vs) (simp add: computeProjectedGeoRectangle_corners centeredRotatedRectangle_def)

lemma midPoint_computeProjectedGeoRectangle:
  "midPoint (computeProjectedGeoRectangle vs s r c) = Some c"
  by (cases vs; cases c)
     (simp add: computeProjectedGeoRectangle_corners midPoint_def field_simps)

lemma newViewport_fields:
  "projectedGeoRectangle (newViewport sz c s r d) =
     computeProjectedGeoRectangle (Math_round (fst sz), Math_round (snd sz)) s
       (case r of None \<Rightarrow> 0 | Some x \<Rightarrow> x) c"
  "viewportSize (newViewport sz c s r d) = (Math_round (fst sz), Math_round (snd sz))"
  "projectedGeoCenter (newViewport sz c s r d) = c"
  "projectedGeoPerViewportScale (newViewport sz c s r d) = s"
  "rotation (newViewport sz c s r d) = (case r of None \<Rightarrow> 0 | Some x \<Rightarrow> x)"
  by (simp_all add: newViewport_def Let_def)

lemma newViewport_round_arg:
  "newViewport (Math_round (fst sz), Math_round (snd sz)) c s r d = newViewport sz c s r d"
  by (simp add: newViewport_def Math_round_idem)

text \<open>
  Claim C6. For every viewport the constructor builds, \<open>projectedGeoRectangle\<close>
  is the axis-aligned rectangle of size \<open>viewportSize\<close> times
  \<open>projectedGeoPerViewportScale\<close>, centred at the origin, rotated by the
  viewport's rotation and translated to \<open>projectedGeoCenter\<close>; the mid point of
  its four corners is \<open>projectedGeoCenter\<close>.
\<close>

theorem projectedGeoRectangle_centered_rotated:
  "projectedGeoRectangle (newViewport sz c s r d) =
     centeredRotatedRectangle
       (fst (viewportSize (newViewport sz c s r d))
          * projectedGeoPerViewportScale (newViewport sz c s r d),
        snd (viewportSize (newViewport sz c s r d))
          * projectedGeoPerViewportScale (newViewport sz c s r d))
       (rotation (newViewport sz c s r d))
       (projectedGeoCenter (newViewport sz c s r d))
   \<and> midPoint (projectedGeoRectangle (newViewport sz c s r d)) =
       Some (projectedGeoCenter (newViewport sz c s r d))"
proof
  show "projectedGeoRectangle (newViewport sz c s r d) =
     centeredRotatedRectangle
       (fst (viewportSize (newViewport sz c s r d))
          * projectedGeoPerViewportScale (newViewport sz c s r d),
        snd (viewportSize (newViewport sz c s r d))
          * projectedGeoPerViewportScale (newViewport sz c s r d))
       (rotation (newViewport sz c s r d))
       (projectedGeoCenter (newViewport sz c s r d))"
    by (simp add: newViewport_fields computeProjectedGeoRectangle_spec)
next
  have "midPoint (projectedGeoRectangle (newViewport sz c s r d)) = Some c"
    unfolding newViewport_fields by (rule midPoint_computeProjectedGeoRectangle)
  then show "midPoint (projectedGeoRectangle (newViewport sz c s r d)) =
       Some (projectedGeoCenter (newViewport sz c s r d))"
    by (simp add: newViewport_fields)
qed

text \<open>
  Claim C9. The \<open>viewportSize\<close> of a constructed viewport is the size given,
  each component rounded to the nearest integer, and what the constructor derives
  (\<open>viewportCenter\<close>, \<open>viewportBbox\<close>, \<open>canvasSize\<close>,
  \<open>projectedGeoRectangle\<close>, the four transforms) is computed from the rounded
  size: the viewport built from a size is the viewport built from its rounding.
  For the size \<open>[3.4, 5.6]\<close> the centre is \<open>(1.5, 3)\<close>, half of \<open>[3, 6]\<close>,
  not \<open>(1.7, 2.8)\<close>.
\<close>

theorem newViewport_rounds_size:
  "viewportSize (newViewport sz c s r d) = (Math_round (fst sz), Math_round (snd sz))
   \<and> newViewport sz c s r d =
       newViewport (Math_round (fst sz), Math_round (snd sz)) c s r d
   \<and> viewportCenter (newViewport sz c s r d) =
       sizeToCenter (Math_round (fst sz), Math_round (snd sz))
   \<and> viewportBbox (newViewport sz c s r d) =
       sizeToBbox (Math_round (fst sz), Math_round (snd sz))
   \<and> canvasSize (newViewport sz c s r d) =
       scaleSize (Math_round (fst sz), Math_round (snd sz))
         (devicePixelRatio (newViewport sz c s r d))
   \<and> projectedGeoRectangle (newViewport sz c s r d) =
       computeProjectedGeoRectangle (Math_round (fst sz), Math_round (snd sz)) s
         (rotation (newViewport sz c s r d)) c
   \<and> projectedGeoToViewportTransform (newViewport sz c s r d) =
       composeProjectedGeoToViewportTransform
         (sizeToCenter (Math_round (fst sz), Math_round (snd sz))) s
         (rotation (newViewport sz c s r d)) c
   \<and> projectedGeoToCanvasTransform (newViewport sz c s r d) =
       composeProjectedGeoToCanvasTransform
         (scalePoint (sizeToCenter (Math_round (fst sz), Math_round (snd sz)))
            (devicePixelRatio (newViewport sz c s r d)))
         (projectedGeoPerCanvasScale (newViewport sz c s r d))
         (rotation (newViewport sz c s r d)) c
   \<and> projectedGeoToClipTransform (newViewport sz c s r d) =
       composeProjectedGeoToClipTransform s (Math_round (fst sz), Math_round (snd sz))
         (rotation (newViewport sz c s r d)) c
   \<and> viewportToClipTransform (newViewport sz c s r d) =
       composeViewportToClipTransform (Math_round (fst sz), Math_round (snd sz))
         (sizeToCenter (Math_round (fst sz), Math_round (snd sz)))
   \<and> viewportCenter (newViewport (17 / 5, 28 / 5) c s r d) = (3 / 2, 3)
   \<and> sizeToCenter (17 / 5, 28 / 5) = (17 / 10, 14 / 5)"
proof -
  have "viewportCenter (newViewport (17 / 5, 28 / 5) c s r d) = (3 / 2, 3)"
    by (simp add: newViewport_def Let_def Math_round_def sizeToCenter_def)
  moreover have "sizeToCenter (17 / 5, 28 / 5) = (17 / 10, 14 / 5)"
    by (simp add: sizeToCenter_def)
  ultimately show ?thesis
    unfolding newViewport_round_arg
    by (simp add: newViewport_def Let_def)
qed

subsection \<open>The transform from projected coordinates to the viewport\<close>

lemma rot_det_aux:
  fixes c s :: real
  assumes "c * c + s * s = 1"
  shows "sx * c * (sy * c) - sy * s * (- sx * s) = sx * sy"
proof -
  have "sx * c * (sy * c) - sy * s * (- sx * s) = sx * sy * (c * c + s * s)"
    by (simp add: algebra_simps)
  with assms show ?thesis by simp
qed

lemma compose_det:
  "getDeterminant (composeTransform dx1 dy1 sx sy a dx2 dy2) = sx * sy"
  unfolding getDeterminant_def composeTransform_def
  by (simp only: prod.case rot_det_aux[OF sin_cos_squared_add3])

lemma invert_aux:
  fixes D :: real
  assumes "D \<noteq> 0" and "a * d - b * c = D"
  shows "multiplyTransform (d / D, - b / D, - c / D, a / D, (c * f - d * e) / D, - (a * f - b * e) / D)
           (a, b, c, d, e, f) = identityTransform"
    and "multiplyTransform (a, b, c, d, e, f)
           (d / D, - b / D, - c / D, a / D, (c * f - d * e) / D, - (a * f - b * e) / D)
          = identityTransform"
proof -
  have n: "d * a - c * b = D" "a * d - c * b = D" "a * d - b * c = D"
    using assms(2) by (simp_all add: mult.commute)
  have "multiplyTransform (d / D, - b / D, - c / D, a / D, (c * f - d * e) / D, - (a * f - b * e) / D)
           (a, b, c, d, e, f)
        = ((d * a - c * b) / D, (a * b - b * a) / D, (d * c - c * d) / D, (a * d - b * c) / D,
           (d * e - c * f + (c * f - d * e)) / D, (a * f - b * e - (a * f - b * e)) / D)"
    by (simp add: multiplyTransform_def add_divide_distrib diff_divide_distrib)
  also have "\<dots> = identityTransform"
    using assms(1) by (simp add: n identityTransform_def mult.commute)
  finally show "multiplyTransform (d / D, - b / D, - c / D, a / D, (c * f - d * e) / D,
        - (a * f - b * e) / D) (a, b, c, d, e, f) = identityTransform" .
  have "multiplyTransform (a, b, c, d, e, f)
           (d / D, - b / D, - c / D, a / D, (c * f - d * e) / D, - (a * f - b * e) / D)
        = ((a * d - c * b) / D, (b * d - d * b) / D, (c * a - a * c) / D, (a * d - b * c) / D,
           (a * (c * f - d * e) - c * (a * f - b * e) + e * D) / D,
           (b * (c * f - d * e) - d * (a * f - b * e) + f * D) / D)"
    using assms(1)
    by (simp add: multiplyTransform_def field_simps)
  also have "\<dots> = identityTransform"
  proof -
    have "a * (c * f - d * e) - c * (a * f - b * e) + e * (a * d - b * c) = 0"
         "b * (c * f - d * e) - d * (a * f - b * e) + f * (a * d - b * c) = 0"
      by (simp_all add: algebra_simps)
    then have "a * (c * f - d * e) - c * (a * f - b * e) + e * D = 0"
         "b * (c * f - d * e) - d * (a * f - b * e) + f * D = 0"
      by (simp_all only: assms(2))
    then show ?thesis
      using assms(1) by (simp add: n identityTransform_def mult.commute)
  qed
  finally show "multiplyTransform (a, b, c, d, e, f)
           (d / D, - b / D, - c / D, a / D, (c * f - d * e) / D, - (a * f - b * e) / D)
          = identityTransform" .
qed

lemma invert_left:
  assumes "invertTransform t = Some ti"
  shows "multiplyTransform ti t = identityTransform"
proof -
  obtain a b c d e f where t: "t = (a, b, c, d, e, f)" by (cases t)
  from assms have D: "a * d - b * c \<noteq> 0"
    by (auto simp: t invertTransform_def getDeterminant_def Let_def split: if_splits)
  from assms D have ti: "ti = (d / (a * d - b * c), - b / (a * d - b * c), - c / (a * d - b * c),
      a / (a * d - b * c), (c * f - d * e) / (a * d - b * c), - (a * f - b * e) / (a * d - b * c))"
    by (simp add: t invertTransform_def getDeterminant_def Let_def)
  show ?thesis unfolding t ti by (rule invert_aux(1)[OF D refl])
qed

lemma invert_right:
  assumes "invertTransform t = Some ti"
  shows "multiplyTransform t ti = identityTransform"
proof -
  obtain a b c d e f where t: "t = (a, b, c, d, e, f)" by (cases t)
  from assms have D: "a * d - b * c \<noteq> 0"
    by (auto simp: t invertTransform_def getDeterminant_def Let_def split: if_splits)
  from assms D have ti: "ti = (d / (a * d - b * c), - b / (a * d - b * c), - c / (a * d - b * c),
      a / (a * d - b * c), (c * f - d * e) / (a * d - b * c), - (a * f - b * e) / (a * d - b * c))"
    by (simp add: t invertTransform_def getDeterminant_def Let_def)
  show ?thesis unfolding t ti by (rule invert_aux(2)[OF D refl])
qed

lemma invertible_iff: "(\<exists>ti. invertTransform t = Some ti) \<longleftrightarrow> getDeterminant t \<noteq> 0"
  by (cases t) (auto simp: invertTransform_def Let_def)

lemma apply_multiply:
  "applyTransform (multiplyTransform t1 t2) p = applyTransform t1 (applyTransform t2 p)"
  by (cases t1; cases t2)
     (simp add: applyTransform_def multiplyTransform_def algebra_simps)

lemma apply_identity: "applyTransform identityTransform p = p"
  by (simp add: applyTransform_def identityTransform_def)

lemma apply_compose_center:
  "applyTransform (composeTransform dx1 dy1 sx sy a (- cx) (- cy)) (cx, cy) = (dx1, dy1)"
  by (simp add: applyTransform_def composeTransform_def algebra_simps)

text \<open>
  Claim C2. For every viewport whose scale is not zero,
  \<open>projectedGeoToViewportTransform\<close> has an inverse, the product of the two is
  the identity transform on either side, and the transform sends
  \<open>projectedGeoCenter\<close> to \<open>viewportCenter\<close>. (Over the reals the products
  are the identity exactly, hence within every tolerance.)
\<close>

theorem projectedGeoToViewport_inverse:
  assumes "s \<noteq> 0"
  shows "\<exists>t ti. projectedGeoToViewportTransform (newViewport sz c s r d) = Some t
           \<and> invertTransform t = Some ti
           \<and> multiplyTransform t ti = identityTransform
           \<and> multiplyTransform ti t = identityTransform
           \<and> (\<forall>p. applyTransform ti (applyTransform t p) = p)
           \<and> (\<forall>p. applyTransform t (applyTransform ti p) = p)
           \<and> applyTransform t (projectedGeoCenter (newViewport sz c s r d))
               = viewportCenter (newViewport sz c s r d)"
proof -
  define V where "V = newViewport sz c s r d"
  define t where "t = composeTransform (fst (viewportCenter V)) (snd (viewportCenter V))
        (1 / s) (- 1 / s) (- rotation V) (- fst c) (- snd c)"
  have T: "projectedGeoToViewportTransform V = Some t"
    using assms unfolding V_def t_def
    by (simp add: newViewport_def Let_def composeProjectedGeoToViewportTransform_def)
  have "getDeterminant t = (1 / s) * (- 1 / s)"
    unfolding t_def by (rule compose_det)
  with assms have "getDeterminant t \<noteq> 0" by simp
  then obtain ti where I: "invertTransform t = Some ti"
    using invertible_iff by blast
  have C: "projectedGeoCenter V = c" unfolding V_def by (simp add: newViewport_fields)
  have A: "applyTransform t (projectedGeoCenter V) = viewportCenter V"
    unfolding C t_def using apply_compose_center[of _ _ _ _ _ "fst c" "snd c"] by simp
  have L: "applyTransform ti (applyTransform t p) = p" for p
    using apply_multiply[of ti t p] invert_left[OF I] by (simp add: apply_identity)
  have R: "applyTransform t (applyTransform ti p) = p" for p
    using apply_multiply[of t ti p] invert_right[OF I] by (simp add: apply_identity)
  show ?thesis
    using T I A L R invert_left[OF I] invert_right[OF I] unfolding V_def by blast
qed

theorem projectedGeoToViewport_inverse_witness:
  "(1::real) \<noteq> 0 \<and>
   (\<exists>t ti. projectedGeoToViewportTransform (newViewport (200, 100) (50, 50) 1 None None) = Some t
           \<and> invertTransform t = Some ti
           \<and> multiplyTransform t ti = identityTransform
           \<and> multiplyTransform ti t = identityTransform
           \<and> applyTransform ti (applyTransform t (10, 20)) = (10, 20)
           \<and> applyTransform t (projectedGeoCenter (newViewport (200, 100) (50, 50) 1 None None))
               = viewportCenter (newViewport (200, 100) (50, 50) 1 None None))"
  using projectedGeoToViewport_inverse[of 1 "(200, 100)" "(50, 50)" None None] by auto

subsection \<open>Fitting a polygon\<close>






















subsection \<open>The factories on a warped map list\<close>

lemma fromSizeAndPolygon_returns:
  "\<exists>v. fromSizeAndPolygon sz (ring # holes) fit rot dpr zoom = Inr v"
  by (simp add: fromSizeAndPolygon_def Let_def split: option.split JsNumber.split)

lemma fromScaleAndPolygon_returns:
  "\<exists>v. fromScaleAndPolygon (ring # holes) sc rot dpr zoom = Inr v"
  by (simp add: fromScaleAndPolygon_def Let_def split: option.split)

lemma getProjectedConvexHull_Nil: "getProjectedConvexHull hullOf [] mapIds = None"
  by (simp add: getProjectedConvexHull_def getWarpedMaps_def split: option.split)

text \<open>
  Claim C3, as the code has it. \<open>fromSizeAndMaps\<close> and \<open>fromScaleAndMaps\<close>
  throw the empty-input error exactly when the selected maps yield no projected
  convex hull, as the empty list does; whenever there is a hull they return a
  viewport and throw nothing.
\<close>

theorem fromMaps_throws_iff_no_hull:
  "(fromSizeAndMaps hullOf sz l mapIds fit rot dpr zoom = Inl EmptyInput
      \<longleftrightarrow> getProjectedConvexHull hullOf l mapIds = None)
   \<and> ((\<exists>v. fromSizeAndMaps hullOf sz l mapIds fit rot dpr zoom = Inr v)
      \<longleftrightarrow> getProjectedConvexHull hullOf l mapIds \<noteq> None)
   \<and> (fromScaleAndMaps hullOf sc l ids rot dpr zoom = Inl EmptyInput
      \<longleftrightarrow> getProjectedConvexHull hullOf l (Some ids) = None)
   \<and> ((\<exists>v. fromScaleAndMaps hullOf sc l ids rot dpr zoom = Inr v)
      \<longleftrightarrow> getProjectedConvexHull hullOf l (Some ids) \<noteq> None)
   \<and> fromSizeAndMaps hullOf sz [] mapIds fit rot dpr zoom = Inl EmptyInput
   \<and> fromScaleAndMaps hullOf sc [] ids rot dpr zoom = Inl EmptyInput"
proof -
  have A: "fromSizeAndMaps hullOf sz l mapIds fit rot dpr zoom = Inl EmptyInput"
    "\<not> (\<exists>v. fromSizeAndMaps hullOf sz l mapIds fit rot dpr zoom = Inr v)"
    if "getProjectedConvexHull hullOf l mapIds = None" for l
    using that by (simp_all add: fromSizeAndMaps_def)
  have B: "\<exists>v. fromSizeAndMaps hullOf sz l mapIds fit rot dpr zoom = Inr v"
    "fromSizeAndMaps hullOf sz l mapIds fit rot dpr zoom \<noteq> Inl EmptyInput"
    if "getProjectedConvexHull hullOf l mapIds = Some ch" for ch
    using that fromSizeAndPolygon_returns[of sz ch "[]"
        "Some (case fit of None \<Rightarrow> Contain | Some f \<Rightarrow> f)" rot dpr zoom]
    by (auto simp: fromSizeAndMaps_def Let_def)
  have C: "fromScaleAndMaps hullOf sc l ids rot dpr zoom = Inl EmptyInput"
    "\<not> (\<exists>v. fromScaleAndMaps hullOf sc l ids rot dpr zoom = Inr v)"
    if "getProjectedConvexHull hullOf l (Some ids) = None" for l
    using that by (simp_all add: fromScaleAndMaps_def)
  have D: "\<exists>v. fromScaleAndMaps hullOf sc l ids rot dpr zoom = Inr v"
    "fromScaleAndMaps hullOf sc l ids rot dpr zoom \<noteq> Inl EmptyInput"
    if "getProjectedConvexHull hullOf l (Some ids) = Some ch" for ch
    using that fromScaleAndPolygon_returns[of ch "[]" sc rot dpr zoom]
    by (auto simp: fromScaleAndMaps_def)
  show ?thesis
    using A[of l] B C[of l] D A(1)[OF getProjectedConvexHull_Nil]
      C(1)[OF getProjectedConvexHull_Nil]
    by (cases "getProjectedConvexHull hullOf l mapIds";
        cases "getProjectedConvexHull hullOf l (Some ids)") simp_all
qed

text \<open>
  Claim C3 as stated fails on a list that is not empty and still yields no hull:
  a list whose only map is hidden.
\<close>

theorem fromMaps_nonempty_list_counterexample:
  "[\<lparr> mapId = ''a'', visible = False, projectedGeoMask = [(0, 0), (1, 0), (0, 1)] \<rparr>] \<noteq> []
   \<and> fromSizeAndMaps (\<lambda>ps. ps) (100, 100)
        [\<lparr> mapId = ''a'', visible = False, projectedGeoMask = [(0, 0), (1, 0), (0, 1)] \<rparr>]
        None None None None None = Inl EmptyInput
   \<and> fromScaleAndMaps (\<lambda>ps. ps) 1
        [\<lparr> mapId = ''a'', visible = False, projectedGeoMask = [(0, 0), (1, 0), (0, 1)] \<rparr>]
        [''a''] None None None = Inl EmptyInput"
  by (simp add: fromSizeAndMaps_def fromScaleAndMaps_def getProjectedConvexHull_def
      getWarpedMaps_def)

subsection \<open>Viewports are not mutated\<close>







section \<open>Properties of the tile server's guard\<close>

lemma ge0_iff: "ge0 n \<longleftrightarrow> \<not> isNegative n \<and> \<not> isNaN n"
  by (cases n) (auto simp: ge0_def isNegative_def isNaN_def)

text \<open>
  Claim C10. \<open>createWarpedTileResponse\<close> throws the error "x, y and z must be
  positive integers" exactly when one of \<open>x\<close>, \<open>y\<close>, \<open>z\<close> is negative
  or \<open>NaN\<close>, and its guard throws nothing else; coordinates that are zero and
  coordinates that are not whole numbers pass the guard, though neither is a
  positive integer.
\<close>

theorem createWarpedTileResponse_guard:
  "(createWarpedTileResponse renderWarpedTile georeferencedMaps options xyz resolution
      = Inl (GuardError ''x, y and z must be positive integers'')
    \<longleftrightarrow> (isNegative (tileX xyz) \<or> isNaN (tileX xyz)
         \<or> isNegative (tileY xyz) \<or> isNaN (tileY xyz)
         \<or> isNegative (tileZ xyz) \<or> isNaN (tileZ xyz)))
   \<and> ((\<exists>msg. createWarpedTileResponse renderWarpedTile georeferencedMaps options xyz resolution
               = Inl (GuardError msg))
    \<longleftrightarrow> (isNegative (tileX xyz) \<or> isNaN (tileX xyz)
         \<or> isNegative (tileY xyz) \<or> isNaN (tileY xyz)
         \<or> isNegative (tileZ xyz) \<or> isNaN (tileZ xyz)))
   \<and> createWarpedTileResponse renderWarpedTile georeferencedMaps options
        \<lparr> tileX = Finite 0, tileY = Finite 0, tileZ = Finite 0 \<rparr> resolution
       \<noteq> Inl (GuardError ''x, y and z must be positive integers'')
   \<and> \<not> isPositiveInteger (Finite 0)
   \<and> createWarpedTileResponse renderWarpedTile georeferencedMaps options
        \<lparr> tileX = Finite (1 / 2), tileY = Finite (3 / 2), tileZ = Finite (5 / 2) \<rparr> resolution
       \<noteq> Inl (GuardError ''x, y and z must be positive integers'')
   \<and> \<not> isPositiveInteger (Finite (1 / 2))"
proof -
  have G: "(createWarpedTileResponse renderWarpedTile georeferencedMaps options t resolution
      = Inl (GuardError msg))
     \<longleftrightarrow> (msg = ''x, y and z must be positive integers''
          \<and> \<not> (ge0 (tileX t) \<and> ge0 (tileY t) \<and> ge0 (tileZ t)))" for t msg
    by (auto simp: createWarpedTileResponse_def Let_def split: sum.splits)
  have half: "(1 / 2 :: real) \<notin> \<int>"
  proof
    assume "(1 / 2 :: real) \<in> \<int>"
    then obtain k :: int where "1 / 2 = real_of_int k" by (auto elim: Ints_cases)
    then have "2 * real_of_int k = 1" by simp
    then have "2 * k = 1" by (metis of_int_1 of_int_eq_iff of_int_mult of_int_numeral)
    then show False by presburger
  qed
  show ?thesis
    unfolding G using half
    by (auto simp: ge0_iff isPositiveInteger_def isNegative_def isNaN_def)
qed

section \<open>Properties of annotation validation\<close>

lemma map_of_filter_key:
  "map_of (filter (\<lambda>kv. fst kv \<noteq> a) kvs) k = (if k = a then None else map_of kvs k)"
  by (induction kvs) auto

lemma MapSchema_unfold:
  "MapSchema imp j \<longleftrightarrow>
     (\<exists>kvs. j = JObject kvs
        \<and> optional (z_literal ''https://schemas.allmaps.org/map/2/context.json'')
            (map_of kvs ''@context'')
        \<and> required (z_literal ''GeoreferencedMap'') (map_of kvs ''type'')
        \<and> optional (z_string (\<lambda>s. True)) (map_of kvs ''id'')
        \<and> optional (z_string (isDatetime imp)) (map_of kvs ''created'')
        \<and> optional (z_string (isDatetime imp)) (map_of kvs ''modified'')
        \<and> required (ResourceSchema imp) (map_of kvs ''resource'')
        \<and> required (z_array (GCPSchema imp)) (map_of kvs ''gcps'')
        \<and> required (ResourceMaskSchema imp) (map_of kvs ''resourceMask'')
        \<and> optional (TransformationSchema imp) (map_of kvs ''transformation''))"
  by (cases j) (simp_all add: MapSchema_def z_object_def)

text \<open>
  Claim C8, as the code has it. A map that \<open>MapSchema\<close> accepts has a
  \<open>gcps\<close> array whose every element is a GCP (a \<open>resource\<close> and a \<open>geo\<close>
  point), and that is all the schema asks of it: the same map with no GCP at all
  is accepted too, whatever its transformation kind.
\<close>

theorem MapSchema_gcps:
  assumes "MapSchema imp j"
  shows "(\<exists>gs. gcpsOf j = Some gs \<and> list_all (GCPSchema imp) gs)
         \<and> MapSchema imp (withGcps [] j)"
proof -
  from assms obtain kvs where j: "j = JObject kvs"
    and rest: "optional (z_literal ''https://schemas.allmaps.org/map/2/context.json'')
            (map_of kvs ''@context'')"
      "required (z_literal ''GeoreferencedMap'') (map_of kvs ''type'')"
      "optional (z_string (\<lambda>s. True)) (map_of kvs ''id'')"
      "optional (z_string (isDatetime imp)) (map_of kvs ''created'')"
      "optional (z_string (isDatetime imp)) (map_of kvs ''modified'')"
      "required (ResourceSchema imp) (map_of kvs ''resource'')"
      "required (ResourceMaskSchema imp) (map_of kvs ''resourceMask'')"
      "optional (TransformationSchema imp) (map_of kvs ''transformation'')"
    and g: "required (z_array (GCPSchema imp)) (map_of kvs ''gcps'')"
    unfolding MapSchema_unfold by blast
  from g obtain gs where gs: "map_of kvs ''gcps'' = Some (JArray gs)"
    and all: "list_all (GCPSchema imp) gs"
    by (auto simp: required_def z_array_def split: option.splits Json.splits)
  have 1: "gcpsOf j = Some gs"
    by (simp add: gcpsOf_def field_def j gs)
  have 2: "MapSchema imp (withGcps [] j)"
    unfolding MapSchema_unfold withGcps_def j
    using rest by (simp add: map_of_filter_key required_def z_array_def)
  from 1 2 all show ?thesis by blast
qed

lemma accepts_three: "MapSchema specImported mapWithThreeGcps"
  by (simp add: MapSchema_def ResourceSchema_def GCPSchema_def z_object_def z_array_def
      z_literal_def z_string_def z_number_positive_def required_def optional_def
      specImported_def specPoint_def mapWithThreeGcps_def)

theorem MapSchema_gcps_witness:
  "MapSchema specImported mapWithThreeGcps
   \<and> (\<exists>gs. gcpsOf mapWithThreeGcps = Some gs \<and> length gs = 3
          \<and> list_all (GCPSchema specImported) gs)
   \<and> MapSchema specImported (withGcps [] mapWithThreeGcps)"
proof -
  from MapSchema_gcps[OF accepts_three] obtain gs
    where "gcpsOf mapWithThreeGcps = Some gs" "list_all (GCPSchema specImported) gs"
      and W: "MapSchema specImported (withGcps [] mapWithThreeGcps)" by blast
  moreover from this(1) have "length gs = 3"
    by (auto simp: gcpsOf_def field_def mapWithThreeGcps_def)
  ultimately show ?thesis using accepts_three by blast
qed

text \<open>
  Claim C8 as stated fails: an annotation with an empty \<open>gcps\<close> array and a
  Helmert transformation, which needs one GCP, is accepted.
\<close>

theorem MapSchema_accepts_no_gcps_counterexample:
  "MapSchema specImported mapWithoutGcps
   \<and> gcpsOf mapWithoutGcps = Some []
   \<and> kindOf mapWithoutGcps = Some Helmert
   \<and> minimumGcps Helmert = Some 1
   \<and> \<not> hasMinimumGcps mapWithoutGcps"
  by (simp add: MapSchema_def ResourceSchema_def GCPSchema_def z_object_def z_array_def
      z_literal_def z_string_def z_number_positive_def required_def optional_def
      specImported_def specPoint_def mapWithoutGcps_def gcpsOf_def kindOf_def field_def
      parseKind_def minimumGcps_def hasMinimumGcps_def)

section \<open>Properties of the texture atlas\<close>












section \<open>Properties of fetching a tile\<close>

lemma catchBlock_fields:
  "phase (catchBlock err s) = Finished"
  "tileImageData (catchBlock err s) = tileImageData s"
  "fetchUrlCalls (catchBlock err s) = fetchUrlCalls s"
  "dispatched (catchBlock err s) =
     dispatched s @ (case err of AbortError \<Rightarrow> [] | OtherError \<Rightarrow> [TILEFETCHERROR])"
  by (cases err; simp add: catchBlock_def)+

lemma step_invariant: "fetchInvariant s \<Longrightarrow> fetchInvariant (step s e)"
  by (cases e) (auto simp: fetchInvariant_def catchBlock_fields)

lemma run_invariant: "fetchInvariant s \<Longrightarrow> fetchInvariant (run s steps)"
  unfolding run_def by (induction steps arbitrary: s) (simp_all add: step_invariant)

lemma fetchCalled_invariant: "fetchInvariant fetchCalled"
  by (simp add: fetchInvariant_def fetchCalled_def)

lemma step_finished:
  assumes "phase s = Finished"
  shows "phase (step s e) = Finished"
    and "dispatched (step s e) = dispatched s"
    and "tileImageData (step s e) = tileImageData s"
    and "fetchUrlCalls (step s e) = fetchUrlCalls s"
  using assms by (cases e; simp)+

lemma run_finished:
  assumes "phase s = Finished"
  shows "phase (run s steps) = Finished
       \<and> dispatched (run s steps) = dispatched s
       \<and> tileImageData (run s steps) = tileImageData s
       \<and> fetchUrlCalls (run s steps) = fetchUrlCalls s"
  using assms unfolding run_def
proof (induction steps arbitrary: s)
  case Nil
  then show ?case by simp
next
  case (Cons e steps)
  from step_finished[OF Cons.prems, of e] Cons.IH[of "step s e"]
  show ?case by simp
qed

text \<open>
  Claim C5, as the code has it. Whenever the promise \<open>fetch\<close> waits for (the
  response of \<open>fetchUrl\<close>, or its blob) rejects: with an error that is not an
  \<open>AbortError\<close>, exactly one \<open>TILEFETCHERROR\<close> is dispatched; with an
  \<open>AbortError\<close>, nothing is dispatched; and in both cases, whatever happens
  afterwards, the data of the tile is never set and \<open>fetchUrl\<close> is not called
  again.
\<close>

theorem fetch_failure_policy:
  assumes reach: "s = run fetchCalled before"
    and fails: "fetchFailsWith s e err"
  shows "dispatched (run s (e # after))
           = (case err of AbortError \<Rightarrow> [] | OtherError \<Rightarrow> [TILEFETCHERROR])
       \<and> tileImageData (run s (e # after)) = None
       \<and> fetchUrlCalls (run s (e # after)) = 1
       \<and> phase (run s (e # after)) = Finished"
proof -
  have inv: "fetchInvariant s"
    unfolding reach by (rule run_invariant[OF fetchCalled_invariant])
  from fails have notfin: "phase s \<noteq> Finished" and st: "step s e = catchBlock err s"
    by (auto simp: fetchFailsWith_def)
  from inv notfin have s0: "dispatched s = []" "tileImageData s = None" "fetchUrlCalls s = 1"
    by (auto simp: fetchInvariant_def)
  have R: "run s (e # after) = run (catchBlock err s) after"
    by (simp add: run_def st)
  from run_finished[OF catchBlock_fields(1), of err s after] s0
  show ?thesis unfolding R by (simp add: catchBlock_fields)
qed

theorem fetch_failure_policy_witness:
  "fetchFailsWith (run fetchCalled [ResponseResolves :: nat Step])
     (BlobRejects OtherError) OtherError
   \<and> dispatched (run (run fetchCalled [ResponseResolves])
        [BlobRejects OtherError, WorkerResolves (7 :: nat), AbortCalled]) = [TILEFETCHERROR]
   \<and> fetchUrlCalls (run (run fetchCalled [ResponseResolves])
        [BlobRejects OtherError, WorkerResolves (7 :: nat), AbortCalled]) = 1
   \<and> fetchFailsWith (run fetchCalled [AbortCalled :: nat Step])
        (ResponseRejects AbortError) AbortError
   \<and> dispatched (run (run fetchCalled [AbortCalled])
        [ResponseRejects AbortError, WorkerResolves (7 :: nat)]) = []
   \<and> tileImageData (run (run fetchCalled [AbortCalled])
        [ResponseRejects AbortError, WorkerResolves (7 :: nat)]) = None"
proof -
  have A: "fetchFailsWith (run fetchCalled [ResponseResolves :: nat Step])
             (BlobRejects OtherError) OtherError"
    by (simp add: fetchFailsWith_def run_def fetchCalled_def)
  have B: "fetchFailsWith (run fetchCalled [AbortCalled :: nat Step])
             (ResponseRejects AbortError) AbortError"
    by (simp add: fetchFailsWith_def run_def fetchCalled_def)
  from fetch_failure_policy[OF refl A, of "[WorkerResolves 7, AbortCalled]"]
       fetch_failure_policy[OF refl B, of "[WorkerResolves 7]"] A B
  show ?thesis by simp
qed

text \<open>
  Claim C5 as stated fails once the blob has been read. The \<open>then\<close> callback of
  the worker is not awaited and checks nothing: an abort signalled while the
  worker decodes does not keep the callback from setting the data and dispatching
  \<open>TILEFETCHED\<close> afterwards; and a worker that fails dispatches no
  \<open>TILEFETCHERROR\<close>.
\<close>

theorem fetch_after_abort_counterexample:
  "signalAborted (run fetchCalled [ResponseResolves, BlobResolves, AbortCalled :: nat Step])
   \<and> tileImageData (run fetchCalled [ResponseResolves, BlobResolves, AbortCalled :: nat Step])
       = None
   \<and> tileImageData
        (run fetchCalled [ResponseResolves, BlobResolves, AbortCalled, WorkerResolves (7 :: nat)])
       = Some 7
   \<and> dispatched
        (run fetchCalled [ResponseResolves, BlobResolves, AbortCalled, WorkerResolves (7 :: nat)])
       = [TILEFETCHED]
   \<and> dispatched (run fetchCalled [ResponseResolves, BlobResolves, WorkerRejects :: nat Step])
       = []"
  by (simp add: run_def fetchCalled_def)

end
